theory Spec2Isabelle
  imports Main "HOL-Library.Word"
begin

section \<open>Strings\<close>

text \<open>
  Python \<open>str\<close> values are modelled as \<open>string\<close>; a \<open>char\<close> stands for a code point
  below 256. \<open>is_space\<close> lists the code points of that range for which \<open>str.isspace\<close>
  holds, \<open>lower_char\<close> is \<open>str.lower\<close> on that range. Code points from 256 on are outside
  the model.
\<close>

definition is_space :: "char \<Rightarrow> bool" where
  "is_space c =
     (let n = (of_char c :: nat)
      in (9 \<le> n \<and> n \<le> 13) \<or> (28 \<le> n \<and> n \<le> 32) \<or> n = 133 \<or> n = 160)"

definition strip :: "string \<Rightarrow> string" where
  "strip s = rev (dropWhile is_space (rev (dropWhile is_space s)))"

definition lower_char :: "char \<Rightarrow> char" where
  "lower_char c =
     (let n = (of_char c :: nat)
      in if (65 \<le> n \<and> n \<le> 90) \<or> (192 \<le> n \<and> n \<le> 222 \<and> n \<noteq> 215)
         then char_of (n + 32) else c)"

definition lower :: "string \<Rightarrow> string" where
  "lower s = map lower_char s"

fun startswith :: "string \<Rightarrow> string \<Rightarrow> bool" where
  "startswith s [] = True"
| "startswith [] (p # ps) = False"
| "startswith (c # cs) (p # ps) = (c = p \<and> startswith cs ps)"

text \<open>\<open>contains sub s\<close> is Python's \<open>sub in s\<close>.\<close>

fun contains :: "string \<Rightarrow> string \<Rightarrow> bool" where
  "contains sub [] = (sub = [])"
| "contains sub (c # cs) = (startswith (c # cs) sub \<or> contains sub cs)"

text \<open>\<open>join sep xs\<close> is Python's \<open>sep.join(xs)\<close>.\<close>

fun join :: "string \<Rightarrow> string list \<Rightarrow> string" where
  "join sep [] = []"
| "join sep [x] = x"
| "join sep (x # y # ys) = x @ sep @ join sep (y # ys)"

text \<open>Truthiness of an \<open>Optional[str]\<close>: \<open>None\<close> and the empty string are falsy.\<close>

fun truthy :: "string option \<Rightarrow> bool" where
  "truthy None = False"
| "truthy (Some s) = (s \<noteq> [])"

section \<open>Data models\<close>

text \<open>
  The pydantic models \<open>ChatRequest\<close>, \<open>ChatResponse\<close>, \<open>LoginRequest\<close> and
  \<open>LoginResponse\<close>. Field names carry a prefix, since two of the models share the names
  \<open>message\<close> and \<open>session_id\<close>.
\<close>

record ChatRequest =
  req_message :: string
  req_session_id :: "string option"

record ChatResponse =
  resp_reply :: string
  resp_source :: string
  resp_monitored :: bool
  resp_session_id :: string

record LoginRequest =
  cred_username :: string
  cred_password :: string

record LoginResponse =
  login_message :: string
  login_token :: string

text \<open>
  What a handler can raise: an \<open>HTTPException\<close> with status code and detail, or pydantic's
  \<open>ValidationError\<close> (naming the rejected field), which no handler catches.
\<close>

datatype error = HTTPException nat string | ValidationError string

text \<open>
  \<open>ChatResponse(...)\<close> validates its arguments: \<open>session_id\<close> is declared \<open>str\<close>, so
  \<open>None\<close> is rejected. The other three arguments always have their declared type at the
  call sites of \<open>chat\<close>.
\<close>

definition new_ChatResponse :: "string \<Rightarrow> string \<Rightarrow> bool \<Rightarrow> string option \<Rightarrow> error + ChatResponse" where
  "new_ChatResponse reply source monitored session_id =
     (case session_id of
        None \<Rightarrow> Inl (ValidationError ''session_id'')
      | Some sid \<Rightarrow>
          Inr \<lparr>resp_reply = reply, resp_source = source,
               resp_monitored = monitored, resp_session_id = sid\<rparr>)"

text \<open>\<open>app.state\<close>: the dictionary \<open>active_tokens\<close> from token to username.\<close>

record app_state =
  active_tokens :: "string \<rightharpoonup> string"

definition initial_state :: app_state where
  "initial_state = \<lparr>active_tokens = Map.empty\<rparr>"

section \<open>Tokens\<close>

text \<open>
  \<open>uuid4()\<close> returns 128 bits; \<open>str\<close> of a UUID is its 32 lower-case hexadecimal digits
  in groups of 8, 4, 4, 4 and 12, separated by hyphens.
\<close>

definition hex_digits :: "nat \<Rightarrow> nat \<Rightarrow> string" where
  "hex_digits k n =
     map (\<lambda>i. ''0123456789abcdef'' ! ((n div 16 ^ (k - 1 - i)) mod 16)) [0..<k]"

definition str_uuid :: "128 word \<Rightarrow> string" where
  "str_uuid u =
     (let h = hex_digits 32 (unat u)
      in take 8 h @ ''-'' @ take 4 (drop 8 h) @ ''-'' @ take 4 (drop 12 h) @ ''-''
         @ take 4 (drop 16 h) @ ''-'' @ drop 20 h)"

definition create_token :: "128 word \<Rightarrow> string \<Rightarrow> string" where
  "create_token uuid username = ''token-'' @ str_uuid uuid @ ''-'' @ username"

definition save_token :: "app_state \<Rightarrow> string \<Rightarrow> string \<Rightarrow> app_state" where
  "save_token s token username = s\<lparr>active_tokens := (active_tokens s)(token \<mapsto> username)\<rparr>"

definition verify_token :: "app_state \<Rightarrow> string \<Rightarrow> error + string" where
  "verify_token s x_auth_token =
     (case active_tokens s x_auth_token of
        None \<Rightarrow> Inl (HTTPException 401 ''Missing or invalid authentication token'')
      | Some username \<Rightarrow>
          if username = [] then Inl (HTTPException 401 ''Missing or invalid authentication token'')
          else Inr username)"

section \<open>The environment\<close>

text \<open>
  The handlers call third-party services: the guardrail validators, the Langfuse client, the
  LangGraph agent, the Tavily client and the random source of \<open>uuid4\<close>. What these return
  is not decided by the code of the service, so it is a parameter of the model, the record
  \<open>world\<close>, together with the environment variables read at import time. A call that the
  source wraps in \<open>try\<close> may raise in the model; a call outside of any \<open>try\<close> is taken
  to return.
\<close>

record search_item =
  item_title :: "string option"
  item_url :: "string option"

datatype search_result = SearchRaised string | SearchResults "search_item list"

text \<open>A tool is a name and the function behind it.\<close>

datatype tool = Tool string "string \<Rightarrow> string"

record llm =
  llm_model :: string
  llm_temperature :: int
  llm_api_key :: string

text \<open>
  The content of the last message of an agent run, \<open>getattr(last_message, "content",
  last_message)\<close>: a string, a list of items, a dictionary with a \<open>"text"\<close> entry,
  \<open>None\<close>, or any other object (given by its \<open>str\<close>). An item of a list is a dictionary
  with a \<open>"text"\<close> entry (given by \<open>str(item["text"])\<close>), a string, or something else.
\<close>

datatype content_item = ItemText string | ItemStr string | ItemOther

datatype content =
    ContentStr string
  | ContentList "content_item list"
  | ContentDictText string
  | ContentNone
  | ContentOther string

text \<open>
  \<open>agent_runner.invoke\<close> raises, returns something that is not a dictionary, or returns a
  dictionary; \<open>InvokeDict ms\<close> carries \<open>result.get("messages")\<close>, with \<open>[]\<close> for a
  missing or empty entry.
\<close>

datatype invoke_result = InvokeRaised | InvokeNotDict | InvokeDict "content list"

type_synonym agent_runner = "(string \<times> string) list \<Rightarrow> invoke_result"

text \<open>
  \<open>guard.validate\<close> returns a \<open>ValidationOutcome\<close> or raises; the guardrail functions
  turn every exception into the string \<open>"GUARDRAILS ERROR"\<close>.
\<close>

datatype guard_result = ValidationOutcome string | GUARDRAILS_ERROR

record world =
  OPENAI_API_KEY :: "string option"
  OPENAI_MODEL_env :: "string option"
  AGENT_API_USERNAME :: "string option"
  AGENT_API_PASSWORD :: "string option"
  TAVILY_API_KEY :: "string option"
  tool_decorator :: bool
  create_react_agent_imported :: bool
  ChatOpenAI_imported :: bool
  ChatOpenAI :: "llm \<Rightarrow> bool"
  create_react_agent :: "llm \<Rightarrow> tool list \<Rightarrow> agent_runner option"
  tavily_client_search :: "string \<Rightarrow> string \<Rightarrow> search_result"
  langfuse_auth_check :: bool
  restrict_to_topic_validate :: "string \<Rightarrow> string option"
  reading_time_validate :: "string \<Rightarrow> string option"
  uuid4 :: "128 word"

text \<open>
  \<open>tool_decorator\<close>, \<open>create_react_agent_imported\<close> and \<open>ChatOpenAI_imported\<close> say
  that the imported names are not \<open>None\<close>. \<open>ChatOpenAI w l\<close> is false when the
  constructor raises, \<open>create_react_agent w l ts\<close> is \<open>None\<close> when it raises; the two
  validators return \<open>None\<close> when \<open>guard.validate\<close> raises.
\<close>

definition OPENAI_MODEL :: "world \<Rightarrow> string" where
  "OPENAI_MODEL w = (case OPENAI_MODEL_env w of None \<Rightarrow> ''gpt-4o-mini'' | Some m \<Rightarrow> m)"

text \<open>
  The external calls a handler makes, in the order it makes them. \<open>VerifyToken\<close> is the
  lookup of the \<open>x_auth_token\<close> header by the dependency of the chat route.
\<close>

datatype event =
    VerifyToken string
  | LangfuseAuthCheck
  | RestrictToTopicValidate string
  | LangfuseSpanInput string "string option"
  | AgentRunnerInvoke "(string \<times> string) list"
  | LangfuseSpanOutput "string option"
  | ReadingTimeValidate string

section \<open>Guardrails\<close>

definition apply_reading_time_guardrail :: "world \<Rightarrow> string \<Rightarrow> guard_result \<times> event list" where
  "apply_reading_time_guardrail w response_text =
     (case reading_time_validate w response_text of
        Some out \<Rightarrow> (ValidationOutcome out, [ReadingTimeValidate response_text])
      | None \<Rightarrow> (GUARDRAILS_ERROR, [ReadingTimeValidate response_text]))"

definition apply_topic_guardrail :: "world \<Rightarrow> string \<Rightarrow> guard_result \<times> event list" where
  "apply_topic_guardrail w prompt =
     (case restrict_to_topic_validate w prompt of
        Some out \<Rightarrow> (ValidationOutcome out, [RestrictToTopicValidate prompt])
      | None \<Rightarrow> (GUARDRAILS_ERROR, [RestrictToTopicValidate prompt]))"

section \<open>The agent\<close>

definition nl :: string where
  "nl = [CHR 0x0A]"

definition format_item :: "search_item \<Rightarrow> string" where
  "format_item item =
     ''- '' @ (case item_title item of None \<Rightarrow> [] | Some t \<Rightarrow> t) @ '': ''
     @ (case item_url item of None \<Rightarrow> [] | Some u \<Rightarrow> u)"

definition tavily_search :: "world \<Rightarrow> string \<Rightarrow> string" where
  "tavily_search w query =
     (case TAVILY_API_KEY w of
        None \<Rightarrow> ''Tavily API key not configured.''
      | Some key \<Rightarrow>
          if key = [] then ''Tavily API key not configured.''
          else (case tavily_client_search w key query of
                  SearchResults results \<Rightarrow>
                    ''Tavily search results:'' @ nl @ join nl (map format_item (take 3 results))
                | SearchRaised e \<Rightarrow> ''Error calling Tavily: '' @ e))"

definition build_tools :: "world \<Rightarrow> tool list" where
  "build_tools w =
     (if \<not> tool_decorator w then [] else [Tool ''tavily_search'' (tavily_search w)])"

text \<open>
  \<open>build_agent_runner\<close> returns the agent (or \<open>None\<close>) and the list of the calls of
  \<open>create_react_agent\<close> it made, each with the language model and the tool list passed.
\<close>

definition build_agent_runner :: "world \<Rightarrow> agent_runner option \<times> (llm \<times> tool list) list" where
  "build_agent_runner w =
     (case OPENAI_API_KEY w of
        None \<Rightarrow> (None, [])
      | Some key \<Rightarrow>
          if \<not> (key \<noteq> [] \<and> create_react_agent_imported w \<and> ChatOpenAI_imported w)
          then (None, [])
          else let tools = build_tools w
               in if tools = [] then (None, [])
                  else let l = \<lparr>llm_model = OPENAI_MODEL w, llm_temperature = 0,
                                 llm_api_key = key\<rparr>
                       in if \<not> ChatOpenAI w l then (None, [])
                          else (create_react_agent w l tools, [(l, tools)]))"

definition agent_runner :: "world \<Rightarrow> agent_runner option" where
  "agent_runner w = fst (build_agent_runner w)"

fun item_chunks :: "content_item \<Rightarrow> string list" where
  "item_chunks (ItemText t) = [t]"
| "item_chunks (ItemStr s) = [s]"
| "item_chunks ItemOther = []"

fun content_to_text :: "content \<Rightarrow> string option" where
  "content_to_text (ContentStr s) = Some s"
| "content_to_text (ContentList items) =
     (let chunks = concat (map item_chunks items)
      in if chunks \<noteq> [] then Some (strip (join nl chunks)) else None)"
| "content_to_text (ContentDictText t) = Some t"
| "content_to_text (ContentOther s) = Some s"
| "content_to_text ContentNone = None"

definition run_agent :: "world \<Rightarrow> string \<Rightarrow> string option \<Rightarrow> string option \<times> event list" where
  "run_agent w message system_prompt =
     (case agent_runner w of
        None \<Rightarrow> (None, [])
      | Some runner \<Rightarrow>
          let messages = (case system_prompt of
                            None \<Rightarrow> []
                          | Some p \<Rightarrow> if p = [] then [] else [(''system'', p)])
                         @ [(''user'', message)]
          in (case runner messages of
                InvokeRaised \<Rightarrow> (None, [AgentRunnerInvoke messages])
              | InvokeNotDict \<Rightarrow> (None, [AgentRunnerInvoke messages])
              | InvokeDict ms \<Rightarrow>
                  if ms = [] then (None, [AgentRunnerInvoke messages])
                  else (content_to_text (last ms), [AgentRunnerInvoke messages])))"

section \<open>Fallback replies\<close>

definition build_offline_reply :: "string \<Rightarrow> string" where
  "build_offline_reply message =
     (let text = lower message
      in if contains ''streamlit'' text
         then ''Streamlit reruns your script after every click. Keep anything you need in st.session_state.''
         else if contains ''fastapi'' text
         then ''FastAPI ships with automatic docs at /docs. Try them once the server is running!''
         else if contains ''langfuse'' text \<or> contains ''monitor'' text
         then ''Langfuse links inputs and outputs. Set the keys to see traces pop up in the dashboard.''
         else if contains ''deploy'' text
         then ''Deploy the API first, then point your Streamlit app to the live URL to share it.''
         else ''I am in offline mode. Ask about Streamlit, FastAPI, or Langfuse to see directed tips.'')"

definition invoke_agent ::
  "world \<Rightarrow> string \<Rightarrow> string option \<Rightarrow> string option \<Rightarrow> (string \<times> string) \<times> event list" where
  "invoke_agent w message session_id system_prompt =
     (let (agent_reply, evs) = run_agent w message system_prompt;
          trace = [LangfuseSpanInput message session_id] @ evs @ [LangfuseSpanOutput agent_reply]
      in if truthy agent_reply
         then ((case agent_reply of Some r \<Rightarrow> r | None \<Rightarrow> [], ''langgraph:'' @ OPENAI_MODEL w), trace)
         else ((build_offline_reply message, ''rule-based''), trace))"

section \<open>Routes\<close>

definition health :: "(string \<times> string) list" where
  "health = [(''status'', ''ok'')]"

definition login :: "world \<Rightarrow> app_state \<Rightarrow> LoginRequest \<Rightarrow> (error + LoginResponse) \<times> app_state" where
  "login w s credentials =
     (if \<not> truthy (AGENT_API_USERNAME w) \<or> \<not> truthy (AGENT_API_PASSWORD w)
      then (Inl (HTTPException 500 ''Server credentials are not configured''), s)
      else if Some (cred_username credentials) \<noteq> AGENT_API_USERNAME w
              \<or> Some (cred_password credentials) \<noteq> AGENT_API_PASSWORD w
      then (Inl (HTTPException 401 ''Invalid username or password''), s)
      else let token = create_token (uuid4 w) (cred_username credentials);
               s' = save_token s token (cred_username credentials)
           in (Inr \<lparr>login_message = ''Welcome back, '' @ cred_username credentials @ ''!'',
                    login_token = token\<rparr>, s'))"

text \<open>The two refusal texts and the system prompt are the literals of \<open>chat\<close>.\<close>

definition topic_refusal :: string where
  "topic_refusal =
     ''Sorry, I can only discuss topics related to Streamlit, ''
     @ ''FastAPI, or general programming. Please adjust your question.''"

definition reading_time_refusal :: string where
  "reading_time_refusal =
     ''The generated answer would take longer than 15 seconds to read. ''
     @ ''Please simplify or narrow down your question so I can provide a ''
     @ ''concise and focused response.''"

definition SYSTEM_PROMPT :: string where
  "SYSTEM_PROMPT =
     nl @ ''        You are a deployment assistant for Class 6 demos. ''
     @ nl @ ''        Explain environment setup, FastAPI backend deployment, and Streamlit UI integration clearly. ''
     @ nl @ ''        Use the Tavily search tool for recent context and cite sources when useful. ''
     @ nl @ ''    ''"

text \<open>
  \<open>chat\<close> is the body of the chat handler, given the username its dependency returned.
  It returns what the handler returns or raises, and the external calls made.
\<close>

definition chat :: "world \<Rightarrow> ChatRequest \<Rightarrow> string \<Rightarrow> (error + ChatResponse) \<times> event list" where
  "chat w payload username =
     (let message = strip (req_message payload)
      in if message = [] then (Inl (HTTPException 400 ''message cannot be empty''), [])
         else
           let session_id = req_session_id payload;
               monitored = (if langfuse_auth_check w then True else False);
               (guard_topic_result, ev_topic) = apply_topic_guardrail w message
           in if guard_topic_result = GUARDRAILS_ERROR
              then (new_ChatResponse topic_refusal ''guardrail:topic'' False session_id,
                    LangfuseAuthCheck # ev_topic)
              else
                let ((reply, source), ev_agent) =
                      invoke_agent w message session_id (Some SYSTEM_PROMPT);
                    (guard_length_result, ev_length) = apply_reading_time_guardrail w reply
                in if guard_length_result = GUARDRAILS_ERROR
                   then (new_ChatResponse reading_time_refusal ''guardrail:reading_time''
                           monitored session_id,
                         LangfuseAuthCheck # ev_topic @ ev_agent @ ev_length)
                   else (new_ChatResponse reply source monitored session_id,
                         LangfuseAuthCheck # ev_topic @ ev_agent @ ev_length))"

text \<open>
  The chat route: the dependency \<open>verify_token\<close> runs on the \<open>x_auth_token\<close> header, then
  the handler. Neither assigns to \<open>app.state\<close>, so the state is returned as it came.
\<close>

definition chat_route ::
  "world \<Rightarrow> app_state \<Rightarrow> string \<Rightarrow> ChatRequest \<Rightarrow> (error + ChatResponse) \<times> event list \<times> app_state" where
  "chat_route w s x_auth_token payload =
     (case verify_token s x_auth_token of
        Inl e \<Rightarrow> (Inl e, [VerifyToken x_auth_token], s)
      | Inr username \<Rightarrow>
          let (r, evs) = chat w payload username
          in (r, VerifyToken x_auth_token # evs, s))"

section \<open>The service as a state machine\<close>

text \<open>
  The operations of the service and the state each leaves behind. Every operation meets
  its own \<open>world\<close>: the answers of the external services may change from call to call.
\<close>

datatype operation =
    Health
  | Login LoginRequest
  | Chat string ChatRequest
  | VerifyTokenOp string

fun handle :: "world \<Rightarrow> app_state \<Rightarrow> operation \<Rightarrow> app_state" where
  "handle w s Health = s"
| "handle w s (Login credentials) = snd (login w s credentials)"
| "handle w s (Chat x_auth_token payload) = snd (snd (chat_route w s x_auth_token payload))"
| "handle w s (VerifyTokenOp x_auth_token) = s"

fun run :: "app_state \<Rightarrow> (world \<times> operation) list \<Rightarrow> app_state" where
  "run s [] = s"
| "run s ((w, op) # ops) = run (handle w s op) ops"

section \<open>Reading traces\<close>

text \<open>
  The events of the agent step (the Langfuse span around it and the call of the agent), and
  the events that are guardrail checks.
\<close>

fun is_agent_event :: "event \<Rightarrow> bool" where
  "is_agent_event (LangfuseSpanInput m sid) = True"
| "is_agent_event (AgentRunnerInvoke ms) = True"
| "is_agent_event (LangfuseSpanOutput r) = True"
| "is_agent_event e = False"

fun is_guardrail_event :: "event \<Rightarrow> bool" where
  "is_guardrail_event (RestrictToTopicValidate t) = True"
| "is_guardrail_event (ReadingTimeValidate t) = True"
| "is_guardrail_event e = False"

section \<open>Concrete inputs\<close>

text \<open>
  A world in which every service is configured: the agent answers every question with one
  short sentence, the topic validator rejects text that mentions politics, and the
  reading-time validator rejects text of more than 60 characters.
\<close>

definition stub_runner :: agent_runner where
  "stub_runner messages = InvokeDict [ContentStr ''Run uvicorn main:app.'']"

definition example_world :: world where
  "example_world =
     \<lparr>OPENAI_API_KEY = Some ''sk-test'', OPENAI_MODEL_env = None,
      AGENT_API_USERNAME = Some ''ana'', AGENT_API_PASSWORD = Some ''pw'',
      TAVILY_API_KEY = None, tool_decorator = True,
      create_react_agent_imported = True, ChatOpenAI_imported = True,
      ChatOpenAI = (\<lambda>l. True), create_react_agent = (\<lambda>l ts. Some stub_runner),
      tavily_client_search = (\<lambda>key query. SearchResults []),
      langfuse_auth_check = True,
      restrict_to_topic_validate = (\<lambda>t. if contains ''politics'' (lower t) then None else Some t),
      reading_time_validate = (\<lambda>t. if 60 < length t then None else Some t),
      uuid4 = 0\<rparr>"

text \<open>The same world with a reading-time validator that rejects every text.\<close>

definition strict_world :: world where
  "strict_world = example_world\<lparr>reading_time_validate := (\<lambda>t. None)\<rparr>"

text \<open>
  A world without \<open>OPENAI_API_KEY\<close>, so without an agent, whose reading-time validator
  accepts every text.
\<close>

definition offline_world :: world where
  "offline_world = example_world\<lparr>OPENAI_API_KEY := None, reading_time_validate := (\<lambda>t. Some t)\<rparr>"

definition example_state :: app_state where
  "example_state = \<lparr>active_tokens = [''tok'' \<mapsto> ''ana'']\<rparr>"

section \<open>Auxiliary facts\<close>

lemma strip_all_space: "\<forall>c\<in>set s. is_space c \<Longrightarrow> strip s = []"
proof -
  assume "\<forall>c\<in>set s. is_space c"
  then have "dropWhile is_space s = []" by simp
  then show ?thesis by (simp only: strip_def rev.simps dropWhile.simps)
qed

lemma length_str_uuid: "length (str_uuid u) = 36"
  by (simp add: str_uuid_def hex_digits_def Let_def)

lemma create_token_inj: "create_token u a = create_token v b \<Longrightarrow> a = b"
proof -
  assume h: "create_token u a = create_token v b"
  have "drop 43 (create_token u a) = a" "drop 43 (create_token v b) = b"
    by (simp_all add: create_token_def length_str_uuid)
  with h show ?thesis by simp
qed

lemma chat_route_unauth:
  "verify_token s tok = Inl e \<Longrightarrow> chat_route w s tok p = (Inl e, [VerifyToken tok], s)"
  by (simp add: chat_route_def)

lemma chat_route_auth:
  "verify_token s tok = Inr u \<Longrightarrow>
   chat_route w s tok p = (fst (chat w p u), VerifyToken tok # snd (chat w p u), s)"
  by (simp add: chat_route_def split: prod.splits)

lemma chat_empty:
  "strip (req_message p) = [] \<Longrightarrow>
   chat w p u = (Inl (HTTPException 400 ''message cannot be empty''), [])"
  by (simp add: chat_def)

lemma chat_topic_blocked:
  "strip (req_message p) \<noteq> [] \<Longrightarrow>
   restrict_to_topic_validate w (strip (req_message p)) = None \<Longrightarrow>
   chat w p u =
     (new_ChatResponse topic_refusal ''guardrail:topic'' False (req_session_id p),
      [LangfuseAuthCheck, RestrictToTopicValidate (strip (req_message p))])"
  by (simp add: chat_def Let_def apply_topic_guardrail_def)

lemma chat_reading_blocked:
  "strip (req_message p) \<noteq> [] \<Longrightarrow>
   restrict_to_topic_validate w (strip (req_message p)) = Some out \<Longrightarrow>
   invoke_agent w (strip (req_message p)) (req_session_id p) (Some SYSTEM_PROMPT)
     = ((reply, source), evs) \<Longrightarrow>
   reading_time_validate w reply = None \<Longrightarrow>
   chat w p u =
     (new_ChatResponse reading_time_refusal ''guardrail:reading_time''
        (langfuse_auth_check w) (req_session_id p),
      [LangfuseAuthCheck, RestrictToTopicValidate (strip (req_message p))]
      @ evs @ [ReadingTimeValidate reply])"
  by (simp add: chat_def Let_def apply_topic_guardrail_def apply_reading_time_guardrail_def)

lemma chat_passed:
  "strip (req_message p) \<noteq> [] \<Longrightarrow>
   restrict_to_topic_validate w (strip (req_message p)) = Some out \<Longrightarrow>
   invoke_agent w (strip (req_message p)) (req_session_id p) (Some SYSTEM_PROMPT)
     = ((reply, source), evs) \<Longrightarrow>
   reading_time_validate w reply = Some out' \<Longrightarrow>
   chat w p u =
     (new_ChatResponse reply source (langfuse_auth_check w) (req_session_id p),
      [LangfuseAuthCheck, RestrictToTopicValidate (strip (req_message p))]
      @ evs @ [ReadingTimeValidate reply])"
  by (simp add: chat_def Let_def apply_topic_guardrail_def apply_reading_time_guardrail_def)

lemma new_ChatResponse_Inr:
  "new_ChatResponse reply source monitored sid = Inr r \<Longrightarrow>
   sid = Some (resp_session_id r) \<and> resp_reply r = reply \<and> resp_source r = source
   \<and> resp_monitored r = monitored"
  by (auto simp: new_ChatResponse_def split: option.splits)

lemma chat_cases:
  obtains
    (empty) "strip (req_message p) = []"
  | (topic) "strip (req_message p) \<noteq> []"
      "restrict_to_topic_validate w (strip (req_message p)) = None"
  | (reading) out reply source evs where "strip (req_message p) \<noteq> []"
      "restrict_to_topic_validate w (strip (req_message p)) = Some out"
      "invoke_agent w (strip (req_message p)) (req_session_id p) (Some SYSTEM_PROMPT)
         = ((reply, source), evs)"
      "reading_time_validate w reply = None"
  | (passed) out reply source evs out' where "strip (req_message p) \<noteq> []"
      "restrict_to_topic_validate w (strip (req_message p)) = Some out"
      "invoke_agent w (strip (req_message p)) (req_session_id p) (Some SYSTEM_PROMPT)
         = ((reply, source), evs)"
      "reading_time_validate w reply = Some out'"
proof -
  obtain reply source evs where
    "invoke_agent w (strip (req_message p)) (req_session_id p) (Some SYSTEM_PROMPT)
         = ((reply, source), evs)"
    by (metis surj_pair)
  then show ?thesis
    using that by (cases "strip (req_message p) = []";
      cases "restrict_to_topic_validate w (strip (req_message p))";
      cases "reading_time_validate w reply") auto
qed

lemma run_agent_events:
  "snd (run_agent w m sp) = [] \<or> (\<exists>ms. snd (run_agent w m sp) = [AgentRunnerInvoke ms])"
  by (simp add: run_agent_def Let_def split: option.splits invoke_result.splits)

lemma invoke_agent_events:
  "snd (invoke_agent w m sid sp) =
     LangfuseSpanInput m sid # snd (run_agent w m sp) @ [LangfuseSpanOutput (fst (run_agent w m sp))]"
  by (simp add: invoke_agent_def Let_def split: prod.splits)

lemma invoke_agent_result:
  "fst (invoke_agent w m sid sp) =
     (case fst (run_agent w m sp) of
        None \<Rightarrow> (build_offline_reply m, ''rule-based'')
      | Some a \<Rightarrow> if a = [] then (build_offline_reply m, ''rule-based'')
                  else (a, ''langgraph:'' @ OPENAI_MODEL w))"
  by (simp add: invoke_agent_def Let_def split: prod.splits option.splits)

lemma invoke_agent_no_guardrail:
  "filter is_guardrail_event (snd (invoke_agent w m sid sp)) = []"
  using run_agent_events [of w m sp] by (auto simp: invoke_agent_events)

lemma chat_route_state: "snd (snd (chat_route w s tok p)) = s"
  by (simp add: chat_route_def split: sum.splits prod.splits)

lemma login_tokens:
  "active_tokens (snd (login w s c)) = active_tokens s
   \<or> active_tokens (snd (login w s c))
       = (active_tokens s)(create_token (uuid4 w) (cred_username c) \<mapsto> cred_username c)"
  by (simp add: login_def Let_def save_token_def)

lemma handle_tokens:
  "active_tokens (handle w s op) = active_tokens s
   \<or> (\<exists>c. op = Login c \<and> active_tokens (handle w s op)
         = (active_tokens s)(create_token (uuid4 w) (cred_username c) \<mapsto> cred_username c))"
  using login_tokens [of w s] by (cases op) (auto simp: chat_route_state)

lemma handle_wf:
  assumes "\<forall>k u. active_tokens s k = Some u \<longrightarrow> (\<exists>i. k = create_token i u)"
  shows "\<forall>k u. active_tokens (handle w s op) k = Some u \<longrightarrow> (\<exists>i. k = create_token i u)"
  using handle_tokens [of w s op] assms by (auto split: if_splits)

lemma handle_keeps:
  assumes "\<forall>k u. active_tokens s k = Some u \<longrightarrow> (\<exists>i. k = create_token i u)"
    and "active_tokens s k = Some u"
  shows "active_tokens (handle w s op) k = Some u"
proof -
  from assms obtain i where k: "k = create_token i u" by blast
  from handle_tokens [of w s op] show ?thesis
  proof
    assume "active_tokens (handle w s op) = active_tokens s"
    with assms(2) show ?thesis by simp
  next
    assume "\<exists>c. op = Login c \<and> active_tokens (handle w s op)
         = (active_tokens s)(create_token (uuid4 w) (cred_username c) \<mapsto> cred_username c)"
    then obtain c :: LoginRequest where c: "active_tokens (handle w s op)
         = (active_tokens s)(create_token (uuid4 w) (cred_username c) \<mapsto> cred_username c)"
      by blast
    show ?thesis
    proof (cases "k = create_token (uuid4 w) (cred_username c)")
      case True
      with k have "cred_username c = u" by (metis create_token_inj)
      with c True show ?thesis by simp
    next
      case False
      with c assms(2) show ?thesis by simp
    qed
  qed
qed

lemma run_keeps:
  "\<forall>k u. active_tokens s k = Some u \<longrightarrow> (\<exists>i. k = create_token i u) \<Longrightarrow>
   active_tokens s k = Some u \<Longrightarrow> active_tokens (run s ops) k = Some u"
proof (induction ops arbitrary: s)
  case Nil
  then show ?case by simp
next
  case (Cons a ops)
  obtain w op where a: "a = (w, op)" by (cases a)
  from Cons.prems have "active_tokens (handle w s op) k = Some u" by (rule handle_keeps)
  moreover from Cons.prems(1)
  have "\<forall>k u. active_tokens (handle w s op) k = Some u \<longrightarrow> (\<exists>i. k = create_token i u)"
    by (rule handle_wf)
  ultimately show ?case using Cons.IH a by simp
qed

lemma run_wf:
  "\<forall>k u. active_tokens s k = Some u \<longrightarrow> (\<exists>i. k = create_token i u) \<Longrightarrow>
   \<forall>k u. active_tokens (run s ops) k = Some u \<longrightarrow> (\<exists>i. k = create_token i u)"
proof (induction ops arbitrary: s)
  case Nil
  then show ?case by simp
next
  case (Cons a ops)
  obtain w op where a: "a = (w, op)" by (cases a)
  from Cons.prems
  have "\<forall>k u. active_tokens (handle w s op) k = Some u \<longrightarrow> (\<exists>i. k = create_token i u)"
    by (rule handle_wf)
  then show ?case using Cons.IH a by simp
qed

lemma run_append: "run s (xs @ ys) = run (run s xs) ys"
  by (induction xs arbitrary: s) auto

lemma SYSTEM_PROMPT_nonempty: "SYSTEM_PROMPT \<noteq> []"
  by (simp add: SYSTEM_PROMPT_def nl_def)

lemma run_agent_prompt:
  "run_agent w m (Some SYSTEM_PROMPT) =
     (case agent_runner w of
        None \<Rightarrow> (None, [])
      | Some runner \<Rightarrow>
          (case runner [(''system'', SYSTEM_PROMPT), (''user'', m)] of
             InvokeDict ms \<Rightarrow> if ms = [] then None else content_to_text (last ms)
           | _ \<Rightarrow> None,
           [AgentRunnerInvoke [(''system'', SYSTEM_PROMPT), (''user'', m)]]))"
  using SYSTEM_PROMPT_nonempty
  by (simp add: run_agent_def Let_def split: option.splits invoke_result.splits)

lemma chat_route_trace:
  "fst (snd (chat_route w s tok p)) =
     (case active_tokens s tok of
        None \<Rightarrow> [VerifyToken tok]
      | Some u \<Rightarrow>
          if u = [] \<or> strip (req_message p) = [] then [VerifyToken tok]
          else if restrict_to_topic_validate w (strip (req_message p)) = None
          then [VerifyToken tok, LangfuseAuthCheck, RestrictToTopicValidate (strip (req_message p))]
          else [VerifyToken tok, LangfuseAuthCheck, RestrictToTopicValidate (strip (req_message p))]
               @ snd (invoke_agent w (strip (req_message p)) (req_session_id p) (Some SYSTEM_PROMPT))
               @ [ReadingTimeValidate (fst (fst (invoke_agent w (strip (req_message p))
                     (req_session_id p) (Some SYSTEM_PROMPT))))])"
proof (cases "verify_token s tok")
  case (Inl e)
  then show ?thesis
    by (auto simp: chat_route_unauth verify_token_def split: option.splits if_splits)
next
  case (Inr u)
  then have tok: "active_tokens s tok = Some u" "u \<noteq> []"
    by (auto simp: verify_token_def split: option.splits if_splits)
  note auth = chat_route_auth [OF Inr]
  show ?thesis
  proof (cases rule: chat_cases [where p = p and w = w])
    case empty
    then show ?thesis by (simp add: auth chat_empty tok)
  next
    case topic
    then show ?thesis by (simp add: auth chat_topic_blocked tok)
  next
    case (reading out reply source evs)
    then show ?thesis by (simp add: auth chat_reading_blocked tok)
  next
    case (passed out reply source evs out')
    then show ?thesis by (simp add: auth chat_passed tok)
  qed
qed

lemma chat_route_response_topic:
  "fst (chat_route w s tok p) = Inr r \<Longrightarrow>
   RestrictToTopicValidate (strip (req_message p)) \<in> set (fst (snd (chat_route w s tok p)))"
proof (cases "verify_token s tok")
  case (Inl e)
  assume "fst (chat_route w s tok p) = Inr r"
  with Inl show ?thesis by (simp add: chat_route_unauth)
next
  case (Inr u)
  assume r: "fst (chat_route w s tok p) = Inr r"
  note auth = chat_route_auth [OF Inr]
  show ?thesis
  proof (cases rule: chat_cases [where p = p and w = w])
    case empty
    with r show ?thesis by (simp add: auth chat_empty)
  next
    case topic
    then show ?thesis by (simp add: auth chat_topic_blocked)
  next
    case (reading out reply source evs)
    then show ?thesis by (simp add: auth chat_reading_blocked)
  next
    case (passed out reply source evs out')
    then show ?thesis by (simp add: auth chat_passed)
  qed
qed

section \<open>The chat pipeline\<close>

text \<open>
  C1, as stated, fails: without \<open>OPENAI_API_KEY\<close> no agent exists, the agent step makes
  no call of an agent, and the reading-time validation is still applied, to the offline
  reply, which is then returned.
\<close>

theorem chat_pipeline_counterexample:
  "agent_runner offline_world = None
   \<and> fst (snd (chat_route offline_world example_state ''tok''
          \<lparr>req_message = ''how do I deploy?'', req_session_id = Some ''s1''\<rparr>))
     = [VerifyToken ''tok'', LangfuseAuthCheck, RestrictToTopicValidate ''how do I deploy?'',
        LangfuseSpanInput ''how do I deploy?'' (Some ''s1''), LangfuseSpanOutput None,
        ReadingTimeValidate
          ''Deploy the API first, then point your Streamlit app to the live URL to share it.'']
   \<and> fst (chat_route offline_world example_state ''tok''
          \<lparr>req_message = ''how do I deploy?'', req_session_id = Some ''s1''\<rparr>)
     = Inr \<lparr>resp_reply =
              ''Deploy the API first, then point your Streamlit app to the live URL to share it.'',
            resp_source = ''rule-based'', resp_monitored = True, resp_session_id = ''s1''\<rparr>"
proof -
  have a: "agent_runner offline_world = None"
    by (simp add: agent_runner_def build_agent_runner_def offline_world_def example_world_def)
  have b: "fst (snd (chat_route offline_world example_state ''tok''
          \<lparr>req_message = ''how do I deploy?'', req_session_id = Some ''s1''\<rparr>))
     = [VerifyToken ''tok'', LangfuseAuthCheck, RestrictToTopicValidate ''how do I deploy?'',
        LangfuseSpanInput ''how do I deploy?'' (Some ''s1''), LangfuseSpanOutput None,
        ReadingTimeValidate
          ''Deploy the API first, then point your Streamlit app to the live URL to share it.'']"
    by code_simp
  have c: "fst (chat_route offline_world example_state ''tok''
          \<lparr>req_message = ''how do I deploy?'', req_session_id = Some ''s1''\<rparr>)
     = Inr \<lparr>resp_reply =
              ''Deploy the API first, then point your Streamlit app to the live URL to share it.'',
            resp_source = ''rule-based'', resp_monitored = True, resp_session_id = ''s1''\<rparr>"
    by code_simp
  from a b c show ?thesis by simp
qed

text \<open>
  C1, amended. The chat route is a sequential pipeline: look the token up, validate the
  topic of the stripped message, run the agent step, validate the reading time of the
  reply of that step, respond; a step runs only when the steps before it passed. The trace
  is the token lookup alone when the token is not in the mapping or the message is empty;
  it ends with the topic validation when that fails; otherwise the agent step follows,
  which calls the agent exactly when one was constructed, once, with the system prompt and
  the stripped message, and the reading-time validation comes last, on the reply of the
  agent when that is not empty and on the offline reply otherwise. So the agent is never
  called for a request whose topic validation fails, every call of the agent follows a
  successful token lookup and topic validation, and a response is returned only after the
  topic validation.
\<close>

theorem chat_pipeline_order:
  "let m = strip (req_message payload);
       sid = req_session_id payload;
       tr = fst (snd (chat_route w s x_auth_token payload));
       prompt = [(''system'', SYSTEM_PROMPT), (''user'', m)];
       agent_reply = (case agent_runner w of
                        None \<Rightarrow> None
                      | Some runner \<Rightarrow>
                          (case runner prompt of
                             InvokeDict ms \<Rightarrow> if ms = [] then None else content_to_text (last ms)
                           | _ \<Rightarrow> None));
       reply = (case agent_reply of
                  None \<Rightarrow> build_offline_reply m
                | Some a \<Rightarrow> if a = [] then build_offline_reply m else a)
   in tr = (case active_tokens s x_auth_token of
              None \<Rightarrow> [VerifyToken x_auth_token]
            | Some u \<Rightarrow>
                if u = [] \<or> m = [] then [VerifyToken x_auth_token]
                else if restrict_to_topic_validate w m = None
                then [VerifyToken x_auth_token, LangfuseAuthCheck, RestrictToTopicValidate m]
                else [VerifyToken x_auth_token, LangfuseAuthCheck, RestrictToTopicValidate m,
                      LangfuseSpanInput m sid]
                     @ (case agent_runner w of
                          None \<Rightarrow> []
                        | Some runner \<Rightarrow> [AgentRunnerInvoke prompt])
                     @ [LangfuseSpanOutput agent_reply, ReadingTimeValidate reply])
      \<and> (restrict_to_topic_validate w m = None \<longrightarrow> \<not> list_ex is_agent_event tr)
      \<and> (\<forall>ms. AgentRunnerInvoke ms \<in> set tr \<longrightarrow>
            ms = prompt \<and> agent_runner w \<noteq> None \<and> restrict_to_topic_validate w m \<noteq> None
            \<and> (\<exists>u. verify_token s x_auth_token = Inr u))
      \<and> (\<forall>x. ReadingTimeValidate x \<in> set tr \<longrightarrow>
            restrict_to_topic_validate w m \<noteq> None \<and> x = reply
            \<and> last tr = ReadingTimeValidate x
            \<and> LangfuseSpanOutput agent_reply \<in> set (butlast tr)
            \<and> (agent_runner w \<noteq> None \<longrightarrow> AgentRunnerInvoke prompt \<in> set (butlast tr)))
      \<and> (\<forall>r. fst (chat_route w s x_auth_token payload) = Inr r \<longrightarrow>
            RestrictToTopicValidate m \<in> set tr)"
proof -
  have vt: "(\<exists>u. verify_token s x_auth_token = Inr u)
      \<longleftrightarrow> (\<exists>u. active_tokens s x_auth_token = Some u \<and> u \<noteq> [])"
    by (auto simp: verify_token_def split: option.splits)
  show ?thesis
    unfolding Let_def chat_route_trace invoke_agent_events invoke_agent_result run_agent_prompt
    using chat_route_response_topic [of w s x_auth_token payload]
    unfolding chat_route_trace invoke_agent_events invoke_agent_result run_agent_prompt vt
    by (auto split: option.splits invoke_result.splits if_splits simp: butlast_append)
qed

theorem chat_pipeline_order_witness:
  "ReadingTimeValidate ''Run uvicorn main:app.''
     \<in> set (fst (snd (chat_route example_world example_state ''tok''
          \<lparr>req_message = '' fastapi deploy? '', req_session_id = Some ''s1''\<rparr>)))
   \<and> agent_runner example_world \<noteq> None
   \<and> last (fst (snd (chat_route example_world example_state ''tok''
          \<lparr>req_message = '' fastapi deploy? '', req_session_id = Some ''s1''\<rparr>)))
       = ReadingTimeValidate ''Run uvicorn main:app.''
   \<and> AgentRunnerInvoke [(''system'', SYSTEM_PROMPT),
         (''user'', strip (req_message
            \<lparr>req_message = '' fastapi deploy? '', req_session_id = Some ''s1''\<rparr>))]
       \<in> set (butlast (fst (snd (chat_route example_world example_state ''tok''
          \<lparr>req_message = '' fastapi deploy? '', req_session_id = Some ''s1''\<rparr>))))"
proof -
  have mem: "ReadingTimeValidate ''Run uvicorn main:app.''
     \<in> set (fst (snd (chat_route example_world example_state ''tok''
          \<lparr>req_message = '' fastapi deploy? '', req_session_id = Some ''s1''\<rparr>)))"
    by code_simp
  have ar: "agent_runner example_world \<noteq> None"
    by (simp add: agent_runner_def build_agent_runner_def build_tools_def example_world_def)
  note t = chat_pipeline_order [where w = example_world and s = example_state
      and x_auth_token = "''tok''"
      and payload = "\<lparr>req_message = '' fastapi deploy? '', req_session_id = Some ''s1''\<rparr>",
      unfolded Let_def]
  from t mem ar show ?thesis by blast
qed

text \<open>
  C2, as stated, fails: a request whose message the topic guardrail rejects is answered
  after one guardrail check only; the reading-time guardrail is applied to nothing, not
  even to the refusal text that goes out.
\<close>

theorem guardrail_checks_counterexample:
  "fst (chat_route example_world example_state ''tok''
          \<lparr>req_message = ''politics today'', req_session_id = Some ''s1''\<rparr>)
     = Inr \<lparr>resp_reply = topic_refusal, resp_source = ''guardrail:topic'',
            resp_monitored = False, resp_session_id = ''s1''\<rparr>
   \<and> filter is_guardrail_event (fst (snd (chat_route example_world example_state ''tok''
          \<lparr>req_message = ''politics today'', req_session_id = Some ''s1''\<rparr>)))
     = [RestrictToTopicValidate ''politics today'']"
  by code_simp

text \<open>
  C2, amended. The guardrail checks of a chat request are, in this order, at most two: the
  topic guardrail on the stripped message, when the token is accepted and the stripped
  message is not empty; and the reading-time guardrail on the reply of the agent step, when
  the topic guardrail passed. No other check is made, and neither guardrail is applied to
  the other text.
\<close>

theorem guardrail_checks_applied:
  "filter is_guardrail_event (fst (snd (chat_route w s x_auth_token payload))) =
     (case verify_token s x_auth_token of
        Inl e \<Rightarrow> []
      | Inr u \<Rightarrow>
          if strip (req_message payload) = [] then []
          else if restrict_to_topic_validate w (strip (req_message payload)) = None
          then [RestrictToTopicValidate (strip (req_message payload))]
          else [RestrictToTopicValidate (strip (req_message payload)),
                ReadingTimeValidate (fst (fst (invoke_agent w (strip (req_message payload))
                   (req_session_id payload) (Some SYSTEM_PROMPT))))])"
proof (cases "verify_token s x_auth_token")
  case (Inl e)
  then show ?thesis by (simp add: chat_route_unauth)
next
  case (Inr u)
  note auth = chat_route_auth [OF Inr]
  note ag = invoke_agent_no_guardrail
  show ?thesis
  proof (cases rule: chat_cases [where p = payload and w = w])
    case empty
    then show ?thesis by (simp add: auth chat_empty Inr)
  next
    case topic
    then show ?thesis by (simp add: auth chat_topic_blocked Inr)
  next
    case (reading out reply source evs)
    from reading(3) have "filter is_guardrail_event evs = []"
      using ag [of w "strip (req_message payload)" "req_session_id payload" "Some SYSTEM_PROMPT"]
      by simp
    with reading show ?thesis by (simp add: auth chat_reading_blocked Inr)
  next
    case (passed out reply source evs out')
    from passed(3) have "filter is_guardrail_event evs = []"
      using ag [of w "strip (req_message payload)" "req_session_id payload" "Some SYSTEM_PROMPT"]
      by simp
    with passed show ?thesis by (simp add: auth chat_passed Inr)
  qed
qed

theorem guardrail_checks_applied_witness:
  "filter is_guardrail_event (fst (snd (chat_route example_world example_state ''tok''
          \<lparr>req_message = '' fastapi deploy? '', req_session_id = Some ''s1''\<rparr>)))
     = [RestrictToTopicValidate ''fastapi deploy?'', ReadingTimeValidate ''Run uvicorn main:app.'']"
proof -
  have a: "verify_token example_state ''tok'' = Inr ''ana''" by code_simp
  have b: "strip '' fastapi deploy? '' = ''fastapi deploy?''" by code_simp
  have c: "restrict_to_topic_validate example_world ''fastapi deploy?'' = Some ''fastapi deploy?''"
    by code_simp
  have d: "fst (fst (invoke_agent example_world ''fastapi deploy?'' (Some ''s1'')
             (Some SYSTEM_PROMPT))) = ''Run uvicorn main:app.''"
    by code_simp
  from guardrail_checks_applied [where w = example_world and s = example_state
      and x_auth_token = "''tok''"
      and payload = "\<lparr>req_message = '' fastapi deploy? '', req_session_id = Some ''s1''\<rparr>"]
  show ?thesis by (simp add: a b c d)
qed

section \<open>Refusals\<close>

text \<open>
  C3. When a guardrail fails, the chat route is to return the canned refusal in the reply
  field. It does not for a request without \<open>session_id\<close>, which \<open>ChatRequest\<close>
  admits: the topic guardrail is evaluated and fails, and the construction of the
  \<open>ChatResponse\<close> with \<open>session_id = None\<close> raises a validation error in place of the
  refusal.
\<close>

theorem refusal_lost_without_session_id:
  "restrict_to_topic_validate example_world (strip ''politics today'') = None
   \<and> fst (snd (chat_route example_world example_state ''tok''
          \<lparr>req_message = ''politics today'', req_session_id = None\<rparr>))
     = [VerifyToken ''tok'', LangfuseAuthCheck, RestrictToTopicValidate ''politics today'']
   \<and> fst (chat_route example_world example_state ''tok''
          \<lparr>req_message = ''politics today'', req_session_id = None\<rparr>)
     = Inl (ValidationError ''session_id'')"
  by code_simp

text \<open>
  What holds for every request: a response that is returned carries the refusal text
  whenever a guardrail failed, and otherwise a reply that the reading-time guardrail
  accepted; and a request with a \<open>session_id\<close> whose guardrail fails is answered with the
  refusal.
\<close>

lemma refusal_when_answered:
  "let m = strip (req_message payload);
       reply = fst (fst (invoke_agent w m (req_session_id payload) (Some SYSTEM_PROMPT)))
   in (fst (chat_route w s x_auth_token payload) = Inr r \<longrightarrow>
         (restrict_to_topic_validate w m = None \<longrightarrow> resp_reply r = topic_refusal)
         \<and> (restrict_to_topic_validate w m \<noteq> None \<and> reading_time_validate w reply = None
              \<longrightarrow> resp_reply r = reading_time_refusal)
         \<and> (resp_reply r = topic_refusal \<or> resp_reply r = reading_time_refusal
              \<or> reading_time_validate w (resp_reply r) \<noteq> None))
      \<and> (verify_token s x_auth_token = Inr u \<and> m \<noteq> [] \<and> req_session_id payload = Some sid \<longrightarrow>
           (restrict_to_topic_validate w m = None \<longrightarrow>
              fst (chat_route w s x_auth_token payload) =
                Inr \<lparr>resp_reply = topic_refusal, resp_source = ''guardrail:topic'',
                     resp_monitored = False, resp_session_id = sid\<rparr>)
           \<and> (restrict_to_topic_validate w m \<noteq> None \<and> reading_time_validate w reply = None \<longrightarrow>
              fst (chat_route w s x_auth_token payload) =
                Inr \<lparr>resp_reply = reading_time_refusal, resp_source = ''guardrail:reading_time'',
                     resp_monitored = langfuse_auth_check w, resp_session_id = sid\<rparr>))"
proof (cases "verify_token s x_auth_token")
  case (Inl e)
  then show ?thesis by (simp add: chat_route_unauth Let_def)
next
  case (Inr u')
  note auth = chat_route_auth [OF Inr]
  show ?thesis
  proof (cases rule: chat_cases [where p = payload and w = w])
    case empty
    then show ?thesis by (simp add: auth chat_empty Let_def)
  next
    case topic
    then show ?thesis
      by (auto simp: auth chat_topic_blocked Let_def new_ChatResponse_def split: option.splits)
  next
    case (reading out reply source evs)
    then show ?thesis
      by (auto simp: auth chat_reading_blocked Let_def new_ChatResponse_def split: option.splits)
  next
    case (passed out reply source evs out')
    then show ?thesis
      by (auto simp: auth chat_passed Let_def new_ChatResponse_def split: option.splits)
  qed
qed

lemma refusal_when_answered_example:
  "verify_token example_state ''tok'' = Inr ''ana''
   \<and> strip (req_message \<lparr>req_message = ''politics today'', req_session_id = Some ''s1''\<rparr>) \<noteq> []
   \<and> restrict_to_topic_validate example_world
        (strip (req_message \<lparr>req_message = ''politics today'', req_session_id = Some ''s1''\<rparr>))
      = None
   \<and> fst (chat_route example_world example_state ''tok''
          \<lparr>req_message = ''politics today'', req_session_id = Some ''s1''\<rparr>)
     = Inr \<lparr>resp_reply = topic_refusal, resp_source = ''guardrail:topic'',
            resp_monitored = False, resp_session_id = ''s1''\<rparr>"
proof -
  have a: "verify_token example_state ''tok'' = Inr ''ana''" by code_simp
  have b: "strip (req_message \<lparr>req_message = ''politics today'', req_session_id = Some ''s1''\<rparr>)
             \<noteq> []" by code_simp
  have c: "restrict_to_topic_validate example_world
        (strip (req_message \<lparr>req_message = ''politics today'', req_session_id = Some ''s1''\<rparr>))
      = None" by code_simp
  have d: "req_session_id \<lparr>req_message = ''politics today'', req_session_id = Some ''s1''\<rparr>
             = Some ''s1''" by simp
  note t = refusal_when_answered [where w = example_world and s = example_state
      and x_auth_token = "''tok''" and u = "''ana''" and sid = "''s1''"
      and payload = "\<lparr>req_message = ''politics today'', req_session_id = Some ''s1''\<rparr>",
      unfolded Let_def]
  from t a b c d show ?thesis by blast
qed

section \<open>Provenance and monitoring\<close>

text \<open>
  C4, as stated, fails: the hosted agent produces a non-empty reply, the reading-time
  guardrail rejects it, and the source of the response is \<open>guardrail:reading_time\<close>, not
  \<open>langgraph:\<close> followed by the model name.
\<close>

theorem chat_source_counterexample:
  "truthy (fst (run_agent strict_world (strip '' fastapi deploy? '') (Some SYSTEM_PROMPT)))
   \<and> fst (chat_route strict_world example_state ''tok''
          \<lparr>req_message = '' fastapi deploy? '', req_session_id = Some ''s1''\<rparr>)
     = Inr \<lparr>resp_reply = reading_time_refusal, resp_source = ''guardrail:reading_time'',
            resp_monitored = True, resp_session_id = ''s1''\<rparr>
   \<and> ''guardrail:reading_time'' \<noteq> ''langgraph:'' @ OPENAI_MODEL strict_world"
  by code_simp

text \<open>
  C4, amended. For every response of the chat route: the source is \<open>langgraph:\<close> followed
  by the configured model name exactly when the hosted agent produced a non-empty reply and
  no guardrail blocked the request, and the reply is then that of the agent; it is
  \<open>rule-based\<close> exactly when the agent produced no reply or an empty one and no guardrail
  blocked the request, and the reply is then \<open>build_offline_reply\<close> of the stripped
  message; it is \<open>guardrail:topic\<close> exactly when the topic guardrail failed, and
  \<open>guardrail:reading_time\<close> exactly when the topic guardrail passed and the reading-time
  guardrail failed.
\<close>

theorem chat_source_provenance:
  assumes "fst (chat_route w s x_auth_token payload) = Inr r"
  shows
   "let m = strip (req_message payload);
        agent_reply = fst (run_agent w m (Some SYSTEM_PROMPT));
        reply = fst (fst (invoke_agent w m (req_session_id payload) (Some SYSTEM_PROMPT)))
    in (resp_source r = ''langgraph:'' @ OPENAI_MODEL w \<longleftrightarrow>
          truthy agent_reply \<and> restrict_to_topic_validate w m \<noteq> None
          \<and> reading_time_validate w reply \<noteq> None)
       \<and> (resp_source r = ''langgraph:'' @ OPENAI_MODEL w \<longrightarrow> agent_reply = Some (resp_reply r))
       \<and> (resp_source r = ''rule-based'' \<longleftrightarrow>
          \<not> truthy agent_reply \<and> restrict_to_topic_validate w m \<noteq> None
          \<and> reading_time_validate w reply \<noteq> None)
       \<and> (resp_source r = ''rule-based'' \<longrightarrow> resp_reply r = build_offline_reply m)
       \<and> (resp_source r = ''guardrail:topic'' \<longleftrightarrow> restrict_to_topic_validate w m = None)
       \<and> (resp_source r = ''guardrail:reading_time'' \<longleftrightarrow>
          restrict_to_topic_validate w m \<noteq> None \<and> reading_time_validate w reply = None)"
proof (cases "verify_token s x_auth_token")
  case (Inl e)
  with assms show ?thesis by (simp add: chat_route_unauth)
next
  case (Inr u)
  with assms have r: "fst (chat w payload u) = Inr r" by (simp add: chat_route_auth)
  show ?thesis
  proof (cases rule: chat_cases [where p = payload and w = w])
    case empty
    with r show ?thesis by (simp add: chat_empty)
  next
    case topic
    with r have "resp_source r = ''guardrail:topic''"
      by (auto simp: chat_topic_blocked dest: new_ChatResponse_Inr)
    with topic show ?thesis by (simp add: Let_def)
  next
    case (reading out reply source evs)
    with r have "resp_source r = ''guardrail:reading_time''"
      by (auto simp: chat_reading_blocked dest: new_ChatResponse_Inr)
    moreover from reading(3) have "fst (fst (invoke_agent w (strip (req_message payload))
        (req_session_id payload) (Some SYSTEM_PROMPT))) = reply" by simp
    ultimately show ?thesis using reading(2,4) by (simp add: Let_def)
  next
    case (passed out reply source evs out')
    with r have rs: "resp_source r = source" "resp_reply r = reply"
      by (auto simp: chat_passed dest: new_ChatResponse_Inr)
    from passed(3) have ia: "fst (invoke_agent w (strip (req_message payload))
        (req_session_id payload) (Some SYSTEM_PROMPT)) = (reply, source)" by simp
    show ?thesis
    proof (cases "truthy (fst (run_agent w (strip (req_message payload)) (Some SYSTEM_PROMPT)))")
      case True
      then obtain a where a: "fst (run_agent w (strip (req_message payload)) (Some SYSTEM_PROMPT)) = Some a"
        "a \<noteq> []"
        by (cases "fst (run_agent w (strip (req_message payload)) (Some SYSTEM_PROMPT))") auto
      with ia have "reply = a" "source = ''langgraph:'' @ OPENAI_MODEL w"
        by (simp_all add: invoke_agent_result)
      with rs a passed(2,4) ia show ?thesis by (simp add: Let_def)
    next
      case False
      with ia have "reply = build_offline_reply (strip (req_message payload))"
        "source = ''rule-based''"
        by (auto simp: invoke_agent_result split: option.splits if_splits)
      with rs False passed(2,4) ia show ?thesis by (simp add: Let_def)
    qed
  qed
qed

theorem chat_source_provenance_witness:
  "fst (chat_route example_world example_state ''tok''
          \<lparr>req_message = '' fastapi deploy? '', req_session_id = Some ''s1''\<rparr>)
     = Inr \<lparr>resp_reply = ''Run uvicorn main:app.'', resp_source = ''langgraph:gpt-4o-mini'',
            resp_monitored = True, resp_session_id = ''s1''\<rparr>
   \<and> fst (run_agent example_world
          (strip (req_message \<lparr>req_message = '' fastapi deploy? '', req_session_id = Some ''s1''\<rparr>))
          (Some SYSTEM_PROMPT)) = Some ''Run uvicorn main:app.''"
proof -
  have h: "fst (chat_route example_world example_state ''tok''
          \<lparr>req_message = '' fastapi deploy? '', req_session_id = Some ''s1''\<rparr>)
     = Inr \<lparr>resp_reply = ''Run uvicorn main:app.'', resp_source = ''langgraph:gpt-4o-mini'',
            resp_monitored = True, resp_session_id = ''s1''\<rparr>"
    by code_simp
  have m: "''langgraph:gpt-4o-mini'' = ''langgraph:'' @ OPENAI_MODEL example_world"
    by code_simp
  from chat_source_provenance [OF h, unfolded Let_def] m h show ?thesis by simp
qed

text \<open>
  C5, as stated, fails: the Langfuse authentication check succeeds, the topic guardrail
  blocks the request, and the response has \<open>monitored = False\<close>.
\<close>

theorem chat_monitored_counterexample:
  "langfuse_auth_check example_world
   \<and> fst (chat_route example_world example_state ''tok''
          \<lparr>req_message = ''politics today'', req_session_id = Some ''s1''\<rparr>)
     = Inr \<lparr>resp_reply = topic_refusal, resp_source = ''guardrail:topic'',
            resp_monitored = False, resp_session_id = ''s1''\<rparr>"
  by code_simp

text \<open>
  C5, amended. For every response of the chat route, \<open>monitored\<close> is true if and only if
  the Langfuse authentication check succeeded and the topic guardrail did not block the
  request.
\<close>

theorem chat_monitored_flag:
  assumes "fst (chat_route w s x_auth_token payload) = Inr r"
  shows "resp_monitored r \<longleftrightarrow>
           langfuse_auth_check w
           \<and> restrict_to_topic_validate w (strip (req_message payload)) \<noteq> None"
proof (cases "verify_token s x_auth_token")
  case (Inl e)
  with assms show ?thesis by (simp add: chat_route_unauth)
next
  case (Inr u)
  with assms have r: "fst (chat w payload u) = Inr r" by (simp add: chat_route_auth)
  show ?thesis
  proof (cases rule: chat_cases [where p = payload and w = w])
    case empty
    with r show ?thesis by (simp add: chat_empty)
  next
    case topic
    with r show ?thesis by (auto simp: chat_topic_blocked dest: new_ChatResponse_Inr)
  next
    case (reading out reply source evs)
    with r show ?thesis by (auto simp: chat_reading_blocked dest: new_ChatResponse_Inr)
  next
    case (passed out reply source evs out')
    with r show ?thesis by (auto simp: chat_passed dest: new_ChatResponse_Inr)
  qed
qed

theorem chat_monitored_flag_witness:
  "fst (chat_route example_world example_state ''tok''
          \<lparr>req_message = '' fastapi deploy? '', req_session_id = Some ''s1''\<rparr>)
     = Inr \<lparr>resp_reply = ''Run uvicorn main:app.'', resp_source = ''langgraph:gpt-4o-mini'',
            resp_monitored = True, resp_session_id = ''s1''\<rparr>
   \<and> langfuse_auth_check example_world
   \<and> restrict_to_topic_validate example_world
        (strip (req_message \<lparr>req_message = '' fastapi deploy? '', req_session_id = Some ''s1''\<rparr>))
       \<noteq> None"
proof -
  have h: "fst (chat_route example_world example_state ''tok''
          \<lparr>req_message = '' fastapi deploy? '', req_session_id = Some ''s1''\<rparr>)
     = Inr \<lparr>resp_reply = ''Run uvicorn main:app.'', resp_source = ''langgraph:gpt-4o-mini'',
            resp_monitored = True, resp_session_id = ''s1''\<rparr>"
    by code_simp
  from chat_monitored_flag [OF h] h show ?thesis by simp
qed

section \<open>The token mapping\<close>

text \<open>
  C6. The state of the service is the token mapping alone. An entry present after any
  sequence of operations (health, login, chat, token verification) from the empty mapping
  is present, with the same username, after every continuation of that sequence; and one
  operation leaves the mapping as it is, or is a login that sets one entry.
\<close>

theorem tokens_never_removed:
  "(active_tokens (run initial_state ops) k = Some u \<longrightarrow>
      active_tokens (run initial_state (ops @ later)) k = Some u)
   \<and> (active_tokens (handle w s op) = active_tokens s
       \<or> (\<exists>c. op = Login c \<and> active_tokens (handle w s op)
             = (active_tokens s)(create_token (uuid4 w) (cred_username c) \<mapsto> cred_username c)))"
proof -
  have "\<forall>k u. active_tokens initial_state k = Some u \<longrightarrow> (\<exists>i. k = create_token i u)"
    by (simp add: initial_state_def)
  then have "\<forall>k u. active_tokens (run initial_state ops) k = Some u
               \<longrightarrow> (\<exists>i. k = create_token i u)"
    by (rule run_wf)
  then have "active_tokens (run initial_state ops) k = Some u \<Longrightarrow>
      active_tokens (run (run initial_state ops) later) k = Some u"
    by (rule run_keeps)
  then show ?thesis using handle_tokens [of w s op] by (simp add: run_append)
qed

theorem tokens_never_removed_witness:
  "active_tokens (run initial_state
       [(example_world, Login \<lparr>cred_username = ''ana'', cred_password = ''pw''\<rparr>)])
     (create_token 0 ''ana'') = Some ''ana''
   \<and> active_tokens (run initial_state
       ([(example_world, Login \<lparr>cred_username = ''ana'', cred_password = ''pw''\<rparr>)]
        @ [(example_world, Chat ''nobody'' \<lparr>req_message = ''hi'', req_session_id = None\<rparr>),
           (strict_world, Login \<lparr>cred_username = ''ana'', cred_password = ''pw''\<rparr>),
           (example_world, Health)]))
     (create_token 0 ''ana'') = Some ''ana''"
proof -
  have h: "active_tokens (run initial_state
       [(example_world, Login \<lparr>cred_username = ''ana'', cred_password = ''pw''\<rparr>)])
     (create_token 0 ''ana'') = Some ''ana''"
    by (simp add: login_def example_world_def Let_def save_token_def)
  from tokens_never_removed [where ops =
        "[(example_world, Login \<lparr>cred_username = ''ana'', cred_password = ''pw''\<rparr>)]"
      and k = "create_token 0 ''ana''" and u = "''ana''"
      and later = "[(example_world, Chat ''nobody'' \<lparr>req_message = ''hi'', req_session_id = None\<rparr>),
           (strict_world, Login \<lparr>cred_username = ''ana'', cred_password = ''pw''\<rparr>),
           (example_world, Health)]"] h
  show ?thesis by blast
qed

section \<open>The tools of the agent\<close>

text \<open>
  C7. The agent is the result of \<open>create_react_agent\<close> applied to the language model and
  the tool list that holds the Tavily search tool and nothing else: whenever the key, the
  imported names and the language model are there, the agent is what that call returns,
  and an agent that exists was returned by that call. The calls \<open>build_agent_runner\<close>
  records all carry that tool list, and \<open>build_tools\<close> returns that list or no tool.
\<close>

theorem agent_tools_only_tavily:
  "(\<forall>key. OPENAI_API_KEY w = Some key \<and> key \<noteq> [] \<and> create_react_agent_imported w
        \<and> ChatOpenAI_imported w \<and> tool_decorator w
        \<and> ChatOpenAI w \<lparr>llm_model = OPENAI_MODEL w, llm_temperature = 0, llm_api_key = key\<rparr>
      \<longrightarrow> agent_runner w =
            create_react_agent w
              \<lparr>llm_model = OPENAI_MODEL w, llm_temperature = 0, llm_api_key = key\<rparr>
              [Tool ''tavily_search'' (tavily_search w)])
   \<and> (\<forall>r. agent_runner w = Some r \<longrightarrow>
         (\<exists>key. OPENAI_API_KEY w = Some key
            \<and> create_react_agent w
                 \<lparr>llm_model = OPENAI_MODEL w, llm_temperature = 0, llm_api_key = key\<rparr>
                 [Tool ''tavily_search'' (tavily_search w)] = Some r))
   \<and> (\<forall>(l, ts) \<in> set (snd (build_agent_runner w)). ts = [Tool ''tavily_search'' (tavily_search w)])
   \<and> (agent_runner w \<noteq> None \<longrightarrow>
        (\<exists>l. snd (build_agent_runner w) = [(l, [Tool ''tavily_search'' (tavily_search w)])]))
   \<and> build_tools w \<in> {[], [Tool ''tavily_search'' (tavily_search w)]}"
  by (auto simp: build_agent_runner_def agent_runner_def build_tools_def Let_def
      split: option.splits if_splits)

theorem agent_tools_only_tavily_witness:
  "agent_runner example_world = Some stub_runner
   \<and> (\<exists>key. OPENAI_API_KEY example_world = Some key
         \<and> create_react_agent example_world
              \<lparr>llm_model = OPENAI_MODEL example_world, llm_temperature = 0, llm_api_key = key\<rparr>
              [Tool ''tavily_search'' (tavily_search example_world)] = Some stub_runner)
   \<and> (\<exists>l. snd (build_agent_runner example_world)
            = [(l, [Tool ''tavily_search'' (tavily_search example_world)])])"
proof -
  have h: "agent_runner example_world = Some stub_runner"
    by (simp add: agent_runner_def build_agent_runner_def build_tools_def example_world_def)
  then have n: "agent_runner example_world \<noteq> None" by simp
  from agent_tools_only_tavily [of example_world] h n show ?thesis by blast
qed

section \<open>The session identifier\<close>

text \<open>
  C8. A response of the chat route carries the \<open>session_id\<close> of the request, unchanged;
  so a request without \<open>session_id\<close> gets no response: the chat route succeeds only for
  requests that supply one.
\<close>

theorem chat_session_id_echo:
  assumes "fst (chat_route w s x_auth_token payload) = Inr r"
  shows "req_session_id payload = Some (resp_session_id r)"
proof (cases "verify_token s x_auth_token")
  case (Inl e)
  with assms show ?thesis by (simp add: chat_route_unauth)
next
  case (Inr u)
  with assms have r: "fst (chat w payload u) = Inr r" by (simp add: chat_route_auth)
  show ?thesis
  proof (cases rule: chat_cases [where p = payload and w = w])
    case empty
    with r show ?thesis by (simp add: chat_empty)
  next
    case topic
    with r show ?thesis by (auto simp: chat_topic_blocked dest: new_ChatResponse_Inr)
  next
    case (reading out reply source evs)
    with r show ?thesis by (auto simp: chat_reading_blocked dest: new_ChatResponse_Inr)
  next
    case (passed out reply source evs out')
    with r show ?thesis by (auto simp: chat_passed dest: new_ChatResponse_Inr)
  qed
qed

theorem chat_session_id_echo_witness:
  "fst (chat_route example_world example_state ''tok''
          \<lparr>req_message = '' fastapi deploy? '', req_session_id = Some ''s1''\<rparr>)
     = Inr \<lparr>resp_reply = ''Run uvicorn main:app.'', resp_source = ''langgraph:gpt-4o-mini'',
            resp_monitored = True, resp_session_id = ''s1''\<rparr>
   \<and> req_session_id \<lparr>req_message = '' fastapi deploy? '', req_session_id = Some ''s1''\<rparr>
     = Some (resp_session_id \<lparr>resp_reply = ''Run uvicorn main:app.'',
               resp_source = ''langgraph:gpt-4o-mini'',
               resp_monitored = True, resp_session_id = ''s1''\<rparr>)"
proof -
  have h: "fst (chat_route example_world example_state ''tok''
          \<lparr>req_message = '' fastapi deploy? '', req_session_id = Some ''s1''\<rparr>)
     = Inr \<lparr>resp_reply = ''Run uvicorn main:app.'', resp_source = ''langgraph:gpt-4o-mini'',
            resp_monitored = True, resp_session_id = ''s1''\<rparr>"
    by code_simp
  from chat_session_id_echo [OF h] h show ?thesis by blast
qed

section \<open>Login and token verification\<close>

text \<open>
  C9. Login and token verification round-trip: whenever \<open>login\<close> succeeds, from any prior
  state of the token mapping, \<open>verify_token\<close> on the state it leaves and the token it
  returned succeeds with exactly the username that logged in.
\<close>

theorem login_verify_roundtrip:
  assumes "login w s credentials = (Inr r, s')"
  shows "verify_token s' (login_token r) = Inr (cred_username credentials)"
proof -
  from assms have u: "AGENT_API_USERNAME w = Some (cred_username credentials)"
    and t: "truthy (AGENT_API_USERNAME w)"
    and r: "login_token r = create_token (uuid4 w) (cred_username credentials)"
    and s': "s' = save_token s (create_token (uuid4 w) (cred_username credentials))
                    (cred_username credentials)"
    by (auto simp: login_def Let_def split: if_splits)
  from u t have "cred_username credentials \<noteq> []" by simp
  with r s' show ?thesis
    by (simp add: verify_token_def save_token_def)
qed

theorem login_verify_roundtrip_witness:
  "login example_world example_state \<lparr>cred_username = ''ana'', cred_password = ''pw''\<rparr>
     = (Inr \<lparr>login_message = ''Welcome back, ana!'', login_token = create_token 0 ''ana''\<rparr>,
        save_token example_state (create_token 0 ''ana'') ''ana'')
   \<and> verify_token (save_token example_state (create_token 0 ''ana'') ''ana'')
        (create_token 0 ''ana'') = Inr ''ana''"
proof -
  have h: "login example_world example_state \<lparr>cred_username = ''ana'', cred_password = ''pw''\<rparr>
     = (Inr \<lparr>login_message = ''Welcome back, ana!'', login_token = create_token 0 ''ana''\<rparr>,
        save_token example_state (create_token 0 ''ana'') ''ana'')"
    by (simp add: login_def example_world_def Let_def)
  from login_verify_roundtrip [OF h] h show ?thesis by simp
qed

section \<open>Empty messages\<close>

text \<open>
  C10. An authenticated chat request whose message is empty or consists of whitespace only
  raises \<open>HTTPException\<close> 400 with detail \<open>message cannot be empty\<close>; the trace holds
  the token lookup and nothing else, so no guardrail was evaluated and the agent was not
  invoked; and the token mapping is the one before the request.
\<close>

theorem chat_empty_message:
  assumes "verify_token s x_auth_token = Inr username"
    and "\<forall>c\<in>set (req_message payload). is_space c"
  shows "chat_route w s x_auth_token payload =
           (Inl (HTTPException 400 ''message cannot be empty''), [VerifyToken x_auth_token], s)"
  using assms by (simp add: chat_route_auth chat_empty strip_all_space)

theorem chat_empty_message_witness:
  "verify_token example_state ''tok'' = Inr ''ana''
   \<and> list_all is_space (req_message \<lparr>req_message = ''  '', req_session_id = Some ''s1''\<rparr>)
   \<and> chat_route example_world example_state ''tok''
        \<lparr>req_message = ''  '', req_session_id = Some ''s1''\<rparr>
      = (Inl (HTTPException 400 ''message cannot be empty''), [VerifyToken ''tok''], example_state)"
proof -
  have a: "verify_token example_state ''tok'' = Inr ''ana''" by code_simp
  have b: "list_all is_space (req_message \<lparr>req_message = ''  '', req_session_id = Some ''s1''\<rparr>)"
    by (simp add: is_space_def)
  then have c: "\<forall>c\<in>set (req_message \<lparr>req_message = ''  '', req_session_id = Some ''s1''\<rparr>).
             is_space c"
    by (simp only: list_all_iff)
  from chat_empty_message [OF a c, of example_world] a b show ?thesis by blast
qed

end
